theory Spec2Isabelle
  imports Complex_Main
begin

section \<open>Event log of the console page\<close>

text \<open>
  The interface \<^verbatim>\<open>RealtimeEvent\<close> of the console page: a timestamp, the side the event
  came from, an optional repeat counter and the payload. The payload is an open
  dictionary; the page only ever reads its \<^verbatim>\<open>type\<close> tag, so the payload is kept as
  the tag and an uninterpreted rest.
\<close>

datatype event_source = Client | Server

record event_payload =
  type :: string
  rest :: string

record realtime_event =
  time :: string
  source :: event_source
  count :: "int option"
  event :: event_payload

text \<open>
  \<^verbatim>\<open>realtimeEvents[realtimeEvents.length - 1]\<close>: the last entry, or undefined when the
  log is empty.
\<close>

fun lastEvent_of :: "realtime_event list \<Rightarrow> realtime_event option" where
  "lastEvent_of [] = None"
| "lastEvent_of (x # xs) = (if xs = [] then Some x else lastEvent_of xs)"

text \<open>\<^verbatim>\<open>(lastEvent.count || 0)\<close>: an absent counter, and a zero one, read as 0.\<close>

definition count_or_zero :: "int option \<Rightarrow> int" where
  "count_or_zero c = (case c of None \<Rightarrow> 0 | Some n \<Rightarrow> n)"

text \<open>
  The state updater the \<^verbatim>\<open>realtime.event\<close> handler passes to
  \<^verbatim>\<open>setRealtimeEvents\<close>: when the last entry has the type of the new event, the last
  entry's counter becomes \<^verbatim>\<open>(count || 0) + 1\<close> and the new event is dropped;
  otherwise the new event is appended as it came. The updater is applied once for each
  event delivered.
\<close>

definition record_event :: "realtime_event list \<Rightarrow> realtime_event \<Rightarrow> realtime_event list" where
  "record_event realtimeEvents realtimeEvent =
     (case lastEvent_of realtimeEvents of
        None \<Rightarrow> realtimeEvents @ [realtimeEvent]
      | Some lastEvent \<Rightarrow>
          if type (event lastEvent) = type (event realtimeEvent)
          then butlast realtimeEvents @ [lastEvent\<lparr>count := Some (count_or_zero (count lastEvent) + 1)\<rparr>]
          else realtimeEvents @ [realtimeEvent])"

text \<open>The log after a sequence of deliveries, the oldest first.\<close>

definition record_all :: "realtime_event list \<Rightarrow> realtime_event list \<Rightarrow> realtime_event list" where
  "record_all realtimeEvents evs = foldl record_event realtimeEvents evs"

text \<open>An event as the channel delivers it: no counter yet.\<close>

definition delivered :: "string \<Rightarrow> realtime_event" where
  "delivered ty = \<lparr>time = [], source = Server, count = None, event = \<lparr>type = ty, rest = []\<rparr>\<rparr>"

text \<open>What an entry of the log shows: its type tag and its counter.\<close>

definition shown :: "realtime_event \<Rightarrow> string \<times> int option" where
  "shown e = (type (event e), count e)"

section \<open>The collaborators: recorder, stream player, realtime client\<close>

text \<open>
  The page drives three objects it does not define: \<^verbatim>\<open>WavRecorder\<close> and
  \<^verbatim>\<open>WavStreamPlayer\<close> (wavtools) and \<^verbatim>\<open>RealtimeClient\<close>. Every call the page makes
  on one of them is written to a trace, in the order of the calls, so that what the page
  does is readable from the trace alone. The state kept for each object, and what a call
  does to it, is what the specification says of the Capture Pipeline, the Playback
  Pipeline and the Session Channel.
\<close>

text \<open>
  Modelled from the spec: the errors an acquisition can end with (the error types of the
  collaborators are not among the sources; these are names of the specification's
  taxonomy).
\<close>

datatype error = DeviceUnavailable | DeviceBusy | ConnectionFailed | ChannelError

text \<open>
  What \<^verbatim>\<open>wavRecorder.getStatus()\<close> answers: the page compares it with
  \<^verbatim>\<open>'recording'\<close>; the device is released (\<open>Ended\<close>), or acquired and silent
  (\<open>Paused\<close>), or delivering chunks.
\<close>

datatype recorder_status = Ended | Paused | Recording

text \<open>
  The turn detection of the session: \<^verbatim>\<open>{ type: 'server_vad' }\<close>, or null, which is
  \<open>None\<close> of the option type.
\<close>

datatype turn_detection = ServerVad

text \<open>
  What \<^verbatim>\<open>interrupt()\<close> reports, as the page destructures it: the id of the track that
  was playing, if any, and the number of samples of it that were played.
\<close>

record track_sample_offset =
  trackId :: "string option"
  offset :: nat

text \<open>The three session updates the page sends.\<close>

datatype session_update =
    Instructions string
  | InputAudioTranscription string
  | TurnDetection "turn_detection option"

text \<open>The calls the page makes on its collaborators.\<close>

datatype action =
    RecorderBegin
  | RecorderRecord
  | RecorderPause
  | RecorderEnd
  | PlayerConnect
  | PlayerInterrupt
  | ClientConnect
  | ClientDisconnect
  | ClientSendUserMessageContent string
  | ClientCancelResponse string nat
  | ClientCreateResponse
  | ClientUpdateSession session_update
  | ClientAddTool string
  | ClientOn string

text \<open>A conversation item of the client; the page's functions below only pass items on.\<close>

datatype item = Item (item_id: string)

record coordinates =
  lat :: rat
  lng :: rat
  location :: "string option"

text \<open>
  The state of the page (the \<^verbatim>\<open>useState\<close> cells and \<^verbatim>\<open>startTimeRef\<close>), the state
  of the three collaborators (the recorder's status; whether the player holds the output
  device and what it is playing; whether the channel is open, its turn detection, its
  conversation items, its tools and its event handlers), and the trace of the calls made
  on them.
\<close>

record world =
  startTime :: string
  isConnected :: bool
  canPushToTalk :: bool
  isRecording :: bool
  realtimeEvents :: "realtime_event list"
  items :: "item list"
  memoryKv :: "string \<rightharpoonup> string"
  coords :: "coordinates option"
  marker :: "coordinates option"
  recorder :: recorder_status
  playerConnected :: bool
  playing :: "track_sample_offset option"
  clientConnected :: bool
  turnDetection :: "turn_detection option"
  clientItems :: "item list"
  tools :: "string list"
  handlers :: "string list"
  trace :: "action list"

text \<open>
  Which of the three acquisitions of \<^verbatim>\<open>connectConversation\<close> fail in a run, and with
  what error: a parameter of the run.
\<close>

record env =
  captureFault :: "error option"
  playbackFault :: "error option"
  channelFault :: "error option"

text \<open>A call on a collaborator is appended to the trace.\<close>

definition call :: "action \<Rightarrow> world \<Rightarrow> world" where
  "call a w = w\<lparr>trace := trace w @ [a]\<rparr>"

text \<open>
  Modelled from the spec: \<^verbatim>\<open>begin()\<close> of the Capture Pipeline (\<^verbatim>\<open>WavRecorder\<close> of
  wavtools, which is not among the sources). It acquires the input device, or fails and
  acquires nothing.
\<close>

definition wavRecorder_begin :: "env \<Rightarrow> world \<Rightarrow> error option \<times> world" where
  "wavRecorder_begin en w =
     (let w' = call RecorderBegin w in
      case captureFault en of
        Some e \<Rightarrow> (Some e, w')
      | None \<Rightarrow> (None, w'\<lparr>recorder := Paused\<rparr>))"

text \<open>
  Modelled from the spec: \<^verbatim>\<open>record(onChunk)\<close> of the Capture Pipeline (not among the
  sources). It starts the delivery of chunks on an acquired device; no chunk is ever
  delivered after \<^verbatim>\<open>end()\<close>.
\<close>

definition wavRecorder_record :: "world \<Rightarrow> world" where
  "wavRecorder_record w =
     (let w' = call RecorderRecord w in
      if recorder w' = Ended then w' else w'\<lparr>recorder := Recording\<rparr>)"

text \<open>
  Modelled from the spec: \<^verbatim>\<open>pause()\<close> of the Capture Pipeline (not among the sources).
  It stops the delivery of chunks; the device stays acquired.
\<close>

definition wavRecorder_pause :: "world \<Rightarrow> world" where
  "wavRecorder_pause w =
     (let w' = call RecorderPause w in
      if recorder w' = Recording then w'\<lparr>recorder := Paused\<rparr> else w')"

text \<open>
  Modelled from the spec: \<^verbatim>\<open>end()\<close> of the Capture Pipeline (not among the sources).
  It releases the device; the specification gives it no failure.
\<close>

definition wavRecorder_end :: "world \<Rightarrow> world" where
  "wavRecorder_end w = (call RecorderEnd w)\<lparr>recorder := Ended\<rparr>"

text \<open>
  Modelled from the spec: \<^verbatim>\<open>getStatus()\<close> of the Capture Pipeline (not among the
  sources), an observation of the recorder.
\<close>

definition wavRecorder_getStatus :: "world \<Rightarrow> recorder_status" where
  "wavRecorder_getStatus w = recorder w"

text \<open>
  Modelled from the spec: \<^verbatim>\<open>connect()\<close> of the Playback Pipeline
  (\<^verbatim>\<open>WavStreamPlayer\<close> of wavtools, not among the sources). It acquires the output
  device, or fails and acquires nothing.
\<close>

definition wavStreamPlayer_connect :: "env \<Rightarrow> world \<Rightarrow> error option \<times> world" where
  "wavStreamPlayer_connect en w =
     (let w' = call PlayerConnect w in
      case playbackFault en of
        Some e \<Rightarrow> (Some e, w')
      | None \<Rightarrow> (None, w'\<lparr>playerConnected := True\<rparr>))"

text \<open>
  Modelled from the spec: \<^verbatim>\<open>interrupt()\<close> of the Playback Pipeline (not among the
  sources). It stops the playing track at once and reports it with the number of samples
  played; on an empty pipeline it reports no track; nothing plays afterwards. The
  specification gives it no failure.
\<close>

definition wavStreamPlayer_interrupt :: "world \<Rightarrow> track_sample_offset option \<times> world" where
  "wavStreamPlayer_interrupt w = (playing w, (call PlayerInterrupt w)\<lparr>playing := None\<rparr>)"

text \<open>
  Modelled from the spec: opening the Session Channel (\<^verbatim>\<open>connect()\<close> of
  \<^verbatim>\<open>RealtimeClient\<close>, an external package). It opens the channel, or fails.
\<close>

definition client_connect :: "env \<Rightarrow> world \<Rightarrow> error option \<times> world" where
  "client_connect en w =
     (let w' = call ClientConnect w in
      case channelFault en of
        Some e \<Rightarrow> (Some e, w')
      | None \<Rightarrow> (None, w'\<lparr>clientConnected := True\<rparr>))"

text \<open>
  Modelled from the spec: closing the Session Channel (\<^verbatim>\<open>disconnect()\<close> of
  \<^verbatim>\<open>RealtimeClient\<close>). The specification gives it no failure.
\<close>

definition client_disconnect :: "world \<Rightarrow> world" where
  "client_disconnect w = (call ClientDisconnect w)\<lparr>clientConnected := False\<rparr>"

text \<open>
  Modelled from the spec: the two observations of the Session Channel the page makes,
  \<^verbatim>\<open>isConnected()\<close> and \<^verbatim>\<open>getTurnDetectionType()\<close> of \<^verbatim>\<open>RealtimeClient\<close>.
\<close>

definition client_isConnected :: "world \<Rightarrow> bool" where
  "client_isConnected w = clientConnected w"

definition client_getTurnDetectionType :: "world \<Rightarrow> turn_detection option" where
  "client_getTurnDetectionType w = turnDetection w"

text \<open>
  Modelled from the spec: the control messages of the Session Channel
  (\<^verbatim>\<open>updateSession\<close>, \<^verbatim>\<open>sendUserMessageContent\<close>, \<^verbatim>\<open>cancelResponse\<close> and
  \<^verbatim>\<open>createResponse\<close> of \<^verbatim>\<open>RealtimeClient\<close>). Each is sent, that is, recorded in the
  trace; a session update with a turn-detection setting changes what the channel
  answers for its turn detection.
\<close>

definition client_updateSession :: "session_update \<Rightarrow> world \<Rightarrow> world" where
  "client_updateSession u w =
     (let w' = call (ClientUpdateSession u) w in
      case u of
        TurnDetection td \<Rightarrow> w'\<lparr>turnDetection := td\<rparr>
      | Instructions _ \<Rightarrow> w'
      | InputAudioTranscription _ \<Rightarrow> w')"

definition client_sendUserMessageContent :: "string \<Rightarrow> world \<Rightarrow> world" where
  "client_sendUserMessageContent txt w = call (ClientSendUserMessageContent txt) w"

definition client_cancelResponse :: "string \<Rightarrow> nat \<Rightarrow> world \<Rightarrow> world" where
  "client_cancelResponse tid n w = call (ClientCancelResponse tid n) w"

definition client_createResponse :: "world \<Rightarrow> world" where
  "client_createResponse w = call ClientCreateResponse w"

text \<open>
  Modelled from the spec: the registrations of the Tool Dispatcher and of the event
  handlers (\<^verbatim>\<open>addTool\<close> and \<^verbatim>\<open>on\<close> of \<^verbatim>\<open>RealtimeClient\<close>). A tool is held under its
  name, and registering a name twice keeps one registration.
\<close>

definition client_addTool :: "string \<Rightarrow> world \<Rightarrow> world" where
  "client_addTool nm w = (call (ClientAddTool nm) w)\<lparr>tools := List.insert nm (tools w)\<rparr>"

definition client_on :: "string \<Rightarrow> world \<Rightarrow> world" where
  "client_on nm w = (call (ClientOn nm) w)\<lparr>handlers := handlers w @ [nm]\<rparr>"

section \<open>The console page: session lifecycle and turn taking\<close>

text \<open>
  An asynchronous function of the page returns the error its promise is rejected with
  (\<open>None\<close> when it resolves) and the world it leaves. A collaborator's error is not
  caught anywhere in these functions: it ends the function at the call that raised it.
\<close>

definition greeting :: string where
  "greeting = ''Hello! Greet me in three different languages. Including English. Ask me how you can help me with my order.''"

text \<open>
  \<^verbatim>\<open>connectConversation\<close>: start time, connected flag, empty event log and the
  client's items first; then the microphone, the audio output and the realtime API, in
  that order; then the greeting and, with server-side turn detection, the recording.
\<close>

definition connectConversation :: "env \<Rightarrow> string \<Rightarrow> world \<Rightarrow> error option \<times> world" where
  "connectConversation en now w =
     (let w0 = w\<lparr>startTime := now, isConnected := True, realtimeEvents := [],
                 items := clientItems w\<rparr> in
      case wavRecorder_begin en w0 of
        (Some e, w1) \<Rightarrow> (Some e, w1)
      | (None, w1) \<Rightarrow>
          (case wavStreamPlayer_connect en w1 of
             (Some e, w2) \<Rightarrow> (Some e, w2)
           | (None, w2) \<Rightarrow>
               (case client_connect en w2 of
                  (Some e, w3) \<Rightarrow> (Some e, w3)
                | (None, w3) \<Rightarrow>
                    (let w4 = client_sendUserMessageContent greeting w3 in
                     if client_getTurnDetectionType w4 = Some ServerVad
                     then (None, wavRecorder_record w4)
                     else (None, w4)))))"

definition default_coords :: coordinates where
  "default_coords = \<lparr>lat = 37775593 / 1000000, lng = - (122418137 / 1000000), location = None\<rparr>"

text \<open>
  \<^verbatim>\<open>disconnectConversation\<close>: the page state back to its defaults, then
  \<^verbatim>\<open>client.disconnect()\<close>, \<^verbatim>\<open>wavRecorder.end()\<close> and
  \<^verbatim>\<open>wavStreamPlayer.interrupt()\<close>, whose report is not used.
\<close>

definition disconnectConversation :: "world \<Rightarrow> error option \<times> world" where
  "disconnectConversation w =
     (let w0 = w\<lparr>isConnected := False, realtimeEvents := [], items := [],
                 memoryKv := Map.empty, coords := Some default_coords, marker := None\<rparr>;
          w1 = client_disconnect w0;
          w2 = wavRecorder_end w1;
          (_, w3) = wavStreamPlayer_interrupt w2
      in (None, w3))"

text \<open>
  The test \<^verbatim>\<open>trackSampleOffset?.trackId\<close> and the destructuring that follows it: a
  report counts when there is one and its track id is neither null nor the empty string.
\<close>

definition reported_track :: "track_sample_offset option \<Rightarrow> (string \<times> nat) option" where
  "reported_track trackSampleOffset =
     (case trackSampleOffset of
        None \<Rightarrow> None
      | Some t \<Rightarrow>
          (case trackId t of
             None \<Rightarrow> None
           | Some tid \<Rightarrow> if tid = [] then None else Some (tid, offset t)))"

text \<open>\<^verbatim>\<open>startRecording\<close> and \<^verbatim>\<open>stopRecording\<close>, the two ends of a push-to-talk turn.\<close>

definition startRecording :: "world \<Rightarrow> world" where
  "startRecording w =
     (let w0 = w\<lparr>isRecording := True\<rparr>;
          (trackSampleOffset, w1) = wavStreamPlayer_interrupt w0;
          w2 = (case reported_track trackSampleOffset of
                  Some (tid, off) \<Rightarrow> client_cancelResponse tid off w1
                | None \<Rightarrow> w1)
      in wavRecorder_record w2)"

definition stopRecording :: "world \<Rightarrow> world" where
  "stopRecording w =
     (let w0 = w\<lparr>isRecording := False\<rparr>;
          w1 = wavRecorder_pause w0
      in client_createResponse w1)"

text \<open>
  \<^verbatim>\<open>changeTurnEndType(value)\<close>: the pause is guarded by \<^verbatim>\<open>value === 'none'\<close>, the
  recording by \<^verbatim>\<open>value === 'server_vad'\<close>; the session update stands between them.
\<close>

definition changeTurnEndType :: "string \<Rightarrow> world \<Rightarrow> world" where
  "changeTurnEndType v w =
     (let w1 = (if v = ''none'' \<and> wavRecorder_getStatus w = Recording
                then wavRecorder_pause w else w);
          w2 = client_updateSession
                 (TurnDetection (if v = ''none'' then None else Some ServerVad)) w1;
          w3 = (if v = ''server_vad'' \<and> client_isConnected w2
                then wavRecorder_record w2 else w2)
      in w3\<lparr>canPushToTalk := (v = ''none'')\<rparr>)"

text \<open>The handler registered for \<^verbatim>\<open>conversation.interrupted\<close>.\<close>

definition on_conversation_interrupted :: "world \<Rightarrow> world" where
  "on_conversation_interrupted w =
     (let (trackSampleOffset, w1) = wavStreamPlayer_interrupt w in
      case reported_track trackSampleOffset of
        Some (tid, off) \<Rightarrow> client_cancelResponse tid off w1
      | None \<Rightarrow> w1)"

text \<open>The handler registered for \<^verbatim>\<open>realtime.event\<close>.\<close>

definition on_realtime_event :: "realtime_event \<Rightarrow> world \<Rightarrow> world" where
  "on_realtime_event realtimeEvent w =
     w\<lparr>realtimeEvents := record_event (realtimeEvents w) realtimeEvent\<rparr>"

text \<open>
  The effect that sets the client up. It returns at once while the instructions are not
  loaded; otherwise it sends the instructions and the transcription setting, registers
  the tool \<^verbatim>\<open>initiate_order\<close> unless the restaurant is in discovery mode, registers
  the four event handlers and shows the client's items.
\<close>

definition coreSetup :: "bool \<Rightarrow> string \<Rightarrow> bool \<Rightarrow> world \<Rightarrow> world" where
  "coreSetup instructionsLoaded instructions discoveryModeIsOn w =
     (if \<not> instructionsLoaded then w
      else
        let w1 = client_updateSession (Instructions instructions) w;
            w2 = client_updateSession (InputAudioTranscription ''whisper-1'') w1;
            w3 = (if \<not> discoveryModeIsOn then client_addTool ''initiate_order'' w2 else w2);
            w4 = client_on ''realtime.event'' w3;
            w5 = client_on ''error'' w4;
            w6 = client_on ''conversation.interrupted'' w5;
            w7 = client_on ''conversation.updated'' w6
        in w7\<lparr>items := clientItems w7\<rparr>)"

text \<open>The calls a step added to the trace.\<close>

definition new_calls :: "world \<Rightarrow> world \<Rightarrow> action list" where
  "new_calls w w' = drop (length (trace w)) (trace w')"

text \<open>
  The page as it is first rendered, with untouched collaborators: not connected, push to
  talk allowed, nothing recorded, no device held, no turn detection set.
\<close>

definition fresh_world :: world where
  "fresh_world =
     \<lparr>startTime = [], isConnected = False, canPushToTalk = True, isRecording = False,
      realtimeEvents = [], items = [], memoryKv = Map.empty,
      coords = Some default_coords, marker = None,
      recorder = Ended, playerConnected = False, playing = None,
      clientConnected = False, turnDetection = None, clientItems = [],
      tools = [], handlers = [], trace = []\<rparr>"

text \<open>A connected session in the middle of a push-to-talk turn.\<close>

definition talking_world :: world where
  "talking_world =
     fresh_world\<lparr>isConnected := True, isRecording := True, recorder := Recording,
                  playerConnected := True, clientConnected := True\<rparr>"

text \<open>The first of the three acquisitions that fails in a run, if one does.\<close>

definition first_fault :: "env \<Rightarrow> error option" where
  "first_fault en =
     (case captureFault en of
        Some e \<Rightarrow> Some e
      | None \<Rightarrow> (case playbackFault en of Some e \<Rightarrow> Some e | None \<Rightarrow> channelFault en))"

text \<open>No device and no channel is held.\<close>

definition released :: "world \<Rightarrow> bool" where
  "released w = (recorder w = Ended \<and> \<not> playerConnected w \<and> \<not> clientConnected w)"

text \<open>Two worlds that differ at most in the trace of past calls.\<close>

definition same_state :: "world \<Rightarrow> world \<Rightarrow> bool" where
  "same_state w w' = (w\<lparr>trace := []\<rparr> = w'\<lparr>trace := []\<rparr>)"

section \<open>The tool \<^verbatim>\<open>initiate_order\<close>\<close>

text \<open>
  The numbers of an order are JavaScript numbers; the handler only adds and multiplies
  them, starting from 0, so the type of numbers is left open (\<open>'n\<close>) and the handler
  is the same function for every arithmetic.
\<close>

record 'n ordered_item =
  name :: string
  quantity :: 'n
  price :: 'n

record 'n order =
  order_id :: string
  restaurant_id :: "string option"
  items_ordered :: "'n ordered_item list"
  totalAmount :: 'n

record 'n tool_result =
  success :: bool
  message :: string
  orderId :: string
  totalAmount :: 'n

text \<open>
  What \<^verbatim>\<open>fetch\<close> and \<^verbatim>\<open>response.json()\<close> do in a run: the request is rejected, or
  a response arrives with a status and a body that parses as JSON or does not.
\<close>

datatype fetch_outcome = NetworkFailure | HttpResponse nat bool

text \<open>\<^verbatim>\<open>response.ok\<close>: a status from 200 to 299.\<close>

definition response_ok :: "nat \<Rightarrow> bool" where
  "response_ok status = (200 \<le> status \<and> status \<le> 299)"

text \<open>
  What a run of the handler reads from outside: the domain of the order service, the id
  in the page's address, the restaurant id in local storage, the random order id, and
  the outcome of the request.
\<close>

record order_env =
  domainUrl :: string
  uniqueAzzId :: string
  storedRestaurantId :: "string option"
  randomOrderId :: string
  response :: fetch_outcome

datatype 'n order_effect =
    ConsoleLog
  | SetOrderDetails "'n order"
  | PostOrder string "'n order"
  | ConsoleError
  | Navigate string

text \<open>\<^verbatim>\<open>items_ordered.reduce((sum, item) => sum + item.price * item.quantity, 0)\<close>\<close>

definition order_total :: "('n::{zero,plus,times}) ordered_item list \<Rightarrow> 'n" where
  "order_total its = foldl (\<lambda>sum it. sum + price it * quantity it) 0 its"

text \<open>
  The handler: the total, the order object, the page state, the POST of the order inside
  \<^verbatim>\<open>try\<close>, whose \<^verbatim>\<open>catch\<close> only logs, and the result returned to the channel.
\<close>

definition initiate_order ::
  "order_env \<Rightarrow> ('n::{zero,plus,times}) ordered_item list \<Rightarrow> 'n tool_result \<times> 'n order_effect list" where
  "initiate_order oe its =
     (let total = order_total its;
          ord = \<lparr>order_id = randomOrderId oe, restaurant_id = storedRestaurantId oe,
                 items_ordered = its, order.totalAmount = total\<rparr>;
          sent = [ConsoleLog, SetOrderDetails ord,
                  PostOrder (domainUrl oe @ ''/accept-order-details-voice'') ord];
          after = (case response oe of
                     NetworkFailure \<Rightarrow> [ConsoleError]
                   | HttpResponse status parses \<Rightarrow>
                       if \<not> response_ok status then [ConsoleError]
                       else if \<not> parses then [ConsoleError]
                       else [ConsoleLog,
                             Navigate (domainUrl oe @ ''/takeaway_delivery/'' @ uniqueAzzId oe
                                       @ ''/'' @ randomOrderId oe)])
      in (\<lparr>success = True, message = ''Order initiated successfully'',
           orderId = randomOrderId oe, tool_result.totalAmount = total\<rparr>,
          sent @ after))"

section \<open>JavaScript numbers\<close>

text \<open>
  A JavaScript number is a binary64 value. \<open>Dbl m e\<close> stands for the number
  \<open>m * 2 ^ e\<close>, with \<open>m = 0\<close> or \<open>2 ^ 52 \<le> \<bar>m\<bar> < 2 ^ 53\<close>, so that every
  number has one representation. Every operation rounds its exact result to the nearest
  such number, ties to the even significand. Only finite numbers in the normal range
  are covered: no infinity, no NaN, no negative zero, no gradual underflow.
\<close>

datatype js_number = Dbl int int

text \<open>The number of binary digits of a positive integer.\<close>

function bitlen :: "int \<Rightarrow> int" where
  "bitlen n = (if n \<le> 0 then 0 else 1 + bitlen (n div 2))"
  by pat_completeness auto
termination
  by (relation "measure nat") auto

declare bitlen.simps [simp del]

text \<open>\<open>x / y\<close> rounded to the nearest integer, a tie to the even one; \<open>0 \<le> x\<close>, \<open>0 < y\<close>.\<close>

definition div_half_even :: "int \<Rightarrow> int \<Rightarrow> int" where
  "div_half_even x y =
     (let q = x div y; r = x mod y in
      if 2 * r < y then q else if y < 2 * r then q + 1 else if even q then q else q + 1)"

text \<open>
  The binary64 number nearest to \<open>(n / d) * 2 ^ s\<close>, for \<open>0 < d\<close>: \<open>e\<close> is the
  binary exponent of \<open>\<bar>n\<bar> / d\<close>, and the quotient is rounded at \<open>2 ^ (e - 52)\<close>.
\<close>

definition round53 :: "int \<Rightarrow> int \<Rightarrow> int \<Rightarrow> js_number" where
  "round53 n d s =
     (if n = 0 then Dbl 0 0
      else
        let a = \<bar>n\<bar>;
            c = bitlen a - bitlen d;
            e = (if (if 0 \<le> c then d * 2 ^ nat c \<le> a else d \<le> a * 2 ^ nat (- c))
                 then c else c - 1);
            k = e - 52;
            m = (if 0 \<le> k then div_half_even a (d * 2 ^ nat k)
                 else div_half_even (a * 2 ^ nat (- k)) d)
        in if m = 2 ^ 53 then Dbl (sgn n * 2 ^ 52) (k + 1 + s) else Dbl (sgn n * m) (k + s))"

instantiation js_number :: "{zero, plus, times}"
begin

definition zero_js_number :: js_number where
  "zero_js_number = Dbl 0 0"

fun plus_js_number :: "js_number \<Rightarrow> js_number \<Rightarrow> js_number" where
  "plus_js_number (Dbl m1 e1) (Dbl m2 e2) =
     (let e = min e1 e2 in round53 (m1 * 2 ^ nat (e1 - e) + m2 * 2 ^ nat (e2 - e)) 1 e)"

fun times_js_number :: "js_number \<Rightarrow> js_number \<Rightarrow> js_number" where
  "times_js_number (Dbl m1 e1) (Dbl m2 e2) = round53 (m1 * m2) 1 (e1 + e2)"

instance ..

end

text \<open>The number a decimal literal denotes: \<open>js_literal 1299 100\<close> is \<^verbatim>\<open>12.99\<close>.\<close>

definition js_literal :: "int \<Rightarrow> int \<Rightarrow> js_number" where
  "js_literal a b = round53 a b 0"

section \<open>Properties of the event log\<close>

lemma lastEvent_of_snoc: "lastEvent_of (xs @ [x]) = Some x"
  by (induction xs) simp_all

lemma lastEvent_of_None: "lastEvent_of xs = None \<Longrightarrow> xs = []"
  by (induction xs) (simp_all split: if_splits)

lemma lastEvent_of_Some: "lastEvent_of xs = Some x \<Longrightarrow> xs = butlast xs @ [x]"
  by (induction xs) (simp_all split: if_splits)

lemma record_event_types:
  "map (\<lambda>e. type (event e)) (record_event xs e) =
     (if xs \<noteq> [] \<and> last (map (\<lambda>e. type (event e)) xs) = type (event e)
      then map (\<lambda>e. type (event e)) xs
      else map (\<lambda>e. type (event e)) xs @ [type (event e)])"
proof (cases "lastEvent_of xs")
  case None
  then have "xs = []" by (rule lastEvent_of_None)
  then show ?thesis by (simp add: record_event_def)
next
  case (Some l)
  then have xs: "xs = butlast xs @ [l]" by (rule lastEvent_of_Some)
  then have ne: "xs \<noteq> []" by auto
  have lst: "last (map (\<lambda>e. type (event e)) xs) = type (event l)"
    by (subst xs) simp
  have m: "map (\<lambda>e. type (event e)) xs =
           map (\<lambda>e. type (event e)) (butlast xs) @ [type (event l)]"
    by (subst xs) simp
  show ?thesis
    using Some ne lst m by (simp add: record_event_def)
qed

lemma record_event_distinct_adj:
  assumes "distinct_adj (map (\<lambda>e. type (event e)) xs)"
  shows "distinct_adj (map (\<lambda>e. type (event e)) (record_event xs e))"
  using assms by (simp add: record_event_types distinct_adj_append_iff)

lemma record_all_distinct_adj:
  "distinct_adj (map (\<lambda>e. type (event e)) xs) \<Longrightarrow>
   distinct_adj (map (\<lambda>e. type (event e)) (record_all xs evs))"
  unfolding record_all_def
  by (induction evs arbitrary: xs) (simp_all add: record_event_distinct_adj)

text \<open>
  Claim C9. After any finite sequence of deliveries into the empty log, no two
  neighbouring entries of the log carry the same type tag (\<open>distinct_adj\<close>: every two
  adjacent elements differ).
\<close>

theorem aggregator_no_adjacent_same_type:
  "distinct_adj (map (\<lambda>e. type (event e)) (record_all [] evs))"
  by (rule record_all_distinct_adj) simp

text \<open>
  Claim C2, as the specification states it: six events of types A, A, B, A, A, A leave
  the entries (A, 2), (B, 1), (A, 3). The log the page builds holds the three entries in
  that order, but with other counters: the statement fails for the events as the channel
  delivers them.
\<close>

theorem aggregator_example_counterexample:
  "map shown (record_all [] (map delivered [''A'', ''A'', ''B'', ''A'', ''A'', ''A'']))
     \<noteq> [(''A'', Some 2), (''B'', Some 1), (''A'', Some 3)]"
  by (simp add: record_all_def record_event_def delivered_def shown_def count_or_zero_def)

text \<open>
  Claim C2, amended. Six events of types a, a, b, a, a, a (a and b different, no event
  with a counter when it arrives) leave exactly three entries: the first event with
  counter 1, the third event as it came (no counter), and the fourth event with
  counter 2. A counter holds how many later events were merged into the entry.
\<close>

theorem aggregator_example_amended:
  assumes "type (event e1) = a" and "type (event e2) = a" and "type (event e3) = b"
    and "type (event e4) = a" and "type (event e5) = a" and "type (event e6) = a"
    and "a \<noteq> b"
    and "count e1 = None" and "count e3 = None" and "count e4 = None"
  shows "record_all [] [e1, e2, e3, e4, e5, e6]
           = [e1\<lparr>count := Some 1\<rparr>, e3, e4\<lparr>count := Some 2\<rparr>]
         \<and> map shown (record_all [] [e1, e2, e3, e4, e5, e6])
           = [(a, Some 1), (b, None), (a, Some 2)]"
  using assms
  by (simp add: record_all_def record_event_def shown_def count_or_zero_def)

theorem aggregator_example_amended_witness:
  "map shown (record_all [] [delivered ''A'', delivered ''A'', delivered ''B'',
      delivered ''A'', delivered ''A'', delivered ''A''])
     = [(''A'', Some 1), (''B'', None), (''A'', Some 2)]"
  by (rule conjunct2 [OF aggregator_example_amended]) (simp_all add: delivered_def)

section \<open>Properties of the session lifecycle\<close>

lemmas collab_defs = call_def wavRecorder_begin_def wavRecorder_record_def
  wavRecorder_pause_def wavRecorder_end_def wavRecorder_getStatus_def
  wavStreamPlayer_connect_def wavStreamPlayer_interrupt_def client_connect_def
  client_disconnect_def client_isConnected_def client_getTurnDetectionType_def
  client_updateSession_def client_sendUserMessageContent_def client_cancelResponse_def
  client_createResponse_def client_addTool_def client_on_def

lemma connect_outcome: "fst (connectConversation en now w) = first_fault en"
  by (simp add: connectConversation_def first_fault_def collab_defs Let_def
      split: option.splits)

lemma connect_flag:
  "isConnected (snd (connectConversation en now w)) \<and>
   realtimeEvents (snd (connectConversation en now w)) = []"
  by (simp add: connectConversation_def collab_defs Let_def split: option.splits)

lemma connect_calls:
  "new_calls w (snd (connectConversation en now w)) =
     (case captureFault en of
        Some e \<Rightarrow> [RecorderBegin]
      | None \<Rightarrow>
         (case playbackFault en of
            Some e \<Rightarrow> [RecorderBegin, PlayerConnect]
          | None \<Rightarrow>
             (case channelFault en of
                Some e \<Rightarrow> [RecorderBegin, PlayerConnect, ClientConnect]
              | None \<Rightarrow> [RecorderBegin, PlayerConnect, ClientConnect,
                          ClientSendUserMessageContent greeting]
                         @ (if turnDetection w = Some ServerVad then [RecorderRecord] else []))))"
  by (simp add: connectConversation_def new_calls_def collab_defs Let_def
      split: option.splits)

lemma connect_devices:
  "recorder (snd (connectConversation en now w)) =
     (if captureFault en \<noteq> None then recorder w
      else if first_fault en = None \<and> turnDetection w = Some ServerVad then Recording
      else Paused)
   \<and> playerConnected (snd (connectConversation en now w)) =
     (if captureFault en = None \<and> playbackFault en = None then True else playerConnected w)"
  by (auto simp add: connectConversation_def first_fault_def collab_defs Let_def
      split: option.splits)

lemma first_fault_None:
  "(first_fault en = None) =
     (captureFault en = None \<and> playbackFault en = None \<and> channelFault en = None)"
  by (simp add: first_fault_def split: option.splits)

text \<open>
  Claim C1, as the specification states it: when an acquisition fails, the session is
  left idle with everything released. Here the microphone and the audio output are
  acquired and the channel fails to open with \<open>ConnectionFailed\<close>: the page is left
  flagged connected, both devices are still held, and the only calls made are the three
  acquisitions.
\<close>

theorem connect_failure_counterexample:
  "fst (connectConversation \<lparr>captureFault = None, playbackFault = None,
          channelFault = Some ConnectionFailed\<rparr> ''t0'' fresh_world) = Some ConnectionFailed
   \<and> isConnected (snd (connectConversation \<lparr>captureFault = None, playbackFault = None,
          channelFault = Some ConnectionFailed\<rparr> ''t0'' fresh_world))
   \<and> \<not> released (snd (connectConversation \<lparr>captureFault = None, playbackFault = None,
          channelFault = Some ConnectionFailed\<rparr> ''t0'' fresh_world))
   \<and> trace (snd (connectConversation \<lparr>captureFault = None, playbackFault = None,
          channelFault = Some ConnectionFailed\<rparr> ''t0'' fresh_world))
       = [RecorderBegin, PlayerConnect, ClientConnect]"
  by (simp add: connectConversation_def fresh_world_def released_def collab_defs)

text \<open>
  Claim C1, amended. \<^verbatim>\<open>connectConversation\<close> flags the page connected and empties the
  event log before it acquires anything, and the flag stays set whatever happens. The
  microphone, the audio output and the channel are acquired in that order; the promise
  is rejected with the error of the first acquisition that fails, unchanged, and the
  function stops at that call: it makes no later call, so nothing acquired before is
  released, and a microphone already acquired stays acquired. The greeting is sent, and
  with server-side turn detection the recording started, only when all three succeed.
\<close>

theorem connect_failure_amended:
  "fst (connectConversation en now w) = first_fault en
   \<and> isConnected (snd (connectConversation en now w))
   \<and> realtimeEvents (snd (connectConversation en now w)) = []
   \<and> (captureFault en \<noteq> None \<longrightarrow>
        new_calls w (snd (connectConversation en now w)) = [RecorderBegin])
   \<and> (captureFault en = None \<and> playbackFault en \<noteq> None \<longrightarrow>
        new_calls w (snd (connectConversation en now w)) = [RecorderBegin, PlayerConnect]
        \<and> recorder (snd (connectConversation en now w)) = Paused)
   \<and> (captureFault en = None \<and> playbackFault en = None \<and> channelFault en \<noteq> None \<longrightarrow>
        new_calls w (snd (connectConversation en now w))
          = [RecorderBegin, PlayerConnect, ClientConnect]
        \<and> recorder (snd (connectConversation en now w)) = Paused
        \<and> playerConnected (snd (connectConversation en now w)))
   \<and> (first_fault en = None \<longrightarrow>
        new_calls w (snd (connectConversation en now w))
          = [RecorderBegin, PlayerConnect, ClientConnect,
             ClientSendUserMessageContent greeting]
            @ (if turnDetection w = Some ServerVad then [RecorderRecord] else []))"
  by (simp add: connect_outcome connect_flag connect_calls connect_devices
        first_fault_None first_fault_def split: option.splits)

theorem connect_failure_amended_witness:
  "fst (connectConversation \<lparr>captureFault = None, playbackFault = Some DeviceBusy,
          channelFault = None\<rparr> ''t0'' fresh_world) = Some DeviceBusy
   \<and> isConnected (snd (connectConversation \<lparr>captureFault = None,
          playbackFault = Some DeviceBusy, channelFault = None\<rparr> ''t0'' fresh_world))
   \<and> recorder (snd (connectConversation \<lparr>captureFault = None,
          playbackFault = Some DeviceBusy, channelFault = None\<rparr> ''t0'' fresh_world)) = Paused
   \<and> new_calls fresh_world (snd (connectConversation \<lparr>captureFault = None,
          playbackFault = Some DeviceBusy, channelFault = None\<rparr> ''t0'' fresh_world))
        = [RecorderBegin, PlayerConnect]
   \<and> new_calls fresh_world (snd (connectConversation \<lparr>captureFault = None,
          playbackFault = None, channelFault = None\<rparr> ''t0'' fresh_world))
        = [RecorderBegin, PlayerConnect, ClientConnect, ClientSendUserMessageContent greeting]"
  using connect_failure_amended [of "\<lparr>captureFault = None, playbackFault = Some DeviceBusy,
          channelFault = None\<rparr>" "''t0''" fresh_world]
    connect_failure_amended [of "\<lparr>captureFault = None, playbackFault = None,
          channelFault = None\<rparr>" "''t0''" fresh_world]
  by (simp add: first_fault_def fresh_world_def)

text \<open>
  Claim C3. \<^verbatim>\<open>disconnectConversation\<close> never rejects, on any world, so neither does a
  second call after a first. The second call leaves the world the first one left, up to
  the trace, which grows by the three teardown calls again; on the page as first
  rendered a call changes nothing but the trace. Each call closes the channel, ends the
  recorder and interrupts the player, in that order, and leaves the page not connected
  with no items and an empty event log.
\<close>

theorem disconnect_idempotent:
  "fst (disconnectConversation w) = None
   \<and> fst (disconnectConversation (snd (disconnectConversation w))) = None
   \<and> same_state (snd (disconnectConversation (snd (disconnectConversation w))))
                 (snd (disconnectConversation w))
   \<and> same_state (snd (disconnectConversation fresh_world)) fresh_world
   \<and> new_calls w (snd (disconnectConversation w))
        = [ClientDisconnect, RecorderEnd, PlayerInterrupt]
   \<and> recorder (snd (disconnectConversation w)) = Ended
   \<and> playing (snd (disconnectConversation w)) = None
   \<and> \<not> clientConnected (snd (disconnectConversation w))
   \<and> \<not> isConnected (snd (disconnectConversation w))
   \<and> items (snd (disconnectConversation w)) = []
   \<and> realtimeEvents (snd (disconnectConversation w)) = []"
  by (simp add: disconnectConversation_def same_state_def new_calls_def fresh_world_def
      collab_defs Let_def split: prod.splits)

section \<open>Properties of interruption and turn taking\<close>

lemma interrupted_calls:
  "new_calls w (on_conversation_interrupted w) =
     PlayerInterrupt # (case reported_track (playing w) of
                          Some (tid, off) \<Rightarrow> [ClientCancelResponse tid off]
                        | None \<Rightarrow> [])"
  by (simp add: on_conversation_interrupted_def new_calls_def collab_defs Let_def
      split: prod.splits option.splits)

lemma setup_registers_handlers:
  "new_calls w (coreSetup True instructions discoveryModeIsOn w) =
     [ClientUpdateSession (Instructions instructions),
      ClientUpdateSession (InputAudioTranscription ''whisper-1'')]
     @ (if discoveryModeIsOn then [] else [ClientAddTool ''initiate_order''])
     @ [ClientOn ''realtime.event'', ClientOn ''error'',
        ClientOn ''conversation.interrupted'', ClientOn ''conversation.updated'']"
  by (simp add: coreSetup_def new_calls_def collab_defs Let_def)

text \<open>
  Claim C4. The setup registers the handler for \<^verbatim>\<open>conversation.interrupted\<close>. The
  handler first interrupts the player. When the player reports a track (an id that is
  present and not empty, as the handler tests it) and an offset, the handler next sends
  one cancel-response carrying exactly that id and that offset, and makes no other call;
  when nothing was playing (no report, or a report without a track id, or with the empty
  string for one) the interruption is its only call. Nothing plays afterwards.
\<close>

theorem interrupted_cancels_with_offset:
  "ClientOn ''conversation.interrupted''
     \<in> set (new_calls w (coreSetup True instructions discoveryModeIsOn w))
   \<and> (playing w = Some \<lparr>trackId = Some tid, offset = n\<rparr> \<and> tid \<noteq> [] \<longrightarrow>
      new_calls w (on_conversation_interrupted w)
        = [PlayerInterrupt, ClientCancelResponse tid n])
   \<and> (playing w = None \<longrightarrow>
      new_calls w (on_conversation_interrupted w) = [PlayerInterrupt])
   \<and> (playing w = Some \<lparr>trackId = None, offset = n\<rparr> \<longrightarrow>
      new_calls w (on_conversation_interrupted w) = [PlayerInterrupt])
   \<and> (playing w = Some \<lparr>trackId = Some [], offset = n\<rparr> \<longrightarrow>
      new_calls w (on_conversation_interrupted w) = [PlayerInterrupt])
   \<and> playing (on_conversation_interrupted w) = None"
  by (simp add: interrupted_calls setup_registers_handlers reported_track_def)
     (simp add: on_conversation_interrupted_def collab_defs Let_def
      split: prod.splits option.splits)

theorem interrupted_cancels_with_offset_witness:
  "new_calls (talking_world\<lparr>playing := Some \<lparr>trackId = Some ''item_1'', offset = 4800\<rparr>\<rparr>)
     (on_conversation_interrupted
        (talking_world\<lparr>playing := Some \<lparr>trackId = Some ''item_1'', offset = 4800\<rparr>\<rparr>))
     = [PlayerInterrupt, ClientCancelResponse ''item_1'' 4800]
   \<and> new_calls talking_world (on_conversation_interrupted talking_world) = [PlayerInterrupt]"
  using interrupted_cancels_with_offset
          [of "talking_world\<lparr>playing := Some \<lparr>trackId = Some ''item_1'', offset = 4800\<rparr>\<rparr>"
              _ _ "''item_1''" 4800]
        interrupted_cancels_with_offset [of talking_world _ _ "''item_1''" 4800]
  by (simp add: talking_world_def fresh_world_def)

lemma startRecording_calls:
  "new_calls w (startRecording w)
     = [PlayerInterrupt]
       @ (case reported_track (playing w) of
            Some (tid, off) \<Rightarrow> [ClientCancelResponse tid off]
          | None \<Rightarrow> [])
       @ [RecorderRecord]"
  by (simp add: startRecording_def new_calls_def collab_defs Let_def
      split: prod.splits option.splits)

lemma startRecording_state:
  "isRecording (startRecording w)
   \<and> playing (startRecording w) = None
   \<and> recorder (startRecording w) = (if recorder w = Ended then Ended else Recording)"
  by (simp add: startRecording_def collab_defs Let_def split: prod.splits option.splits)

lemma stopRecording_calls:
  "new_calls w (stopRecording w) = [RecorderPause, ClientCreateResponse]
   \<and> \<not> isRecording (stopRecording w)
   \<and> recorder (stopRecording w) \<noteq> Recording"
  by (simp add: stopRecording_def new_calls_def collab_defs Let_def)

text \<open>
  Claim C6. \<^verbatim>\<open>startRecording\<close> calls the player's interrupt first. When the player
  was playing a track (an id that is present and not empty, as the function tests it),
  the next call is the client's cancel-response with exactly that track id and the
  offset the player reports, and the recorder's record comes last; when nothing was
  playing (no report, or a report without a track id, or with the empty string for one)
  the record follows the interrupt directly. Nothing plays afterwards and an acquired
  recorder is recording. \<^verbatim>\<open>stopRecording\<close> calls the recorder's pause first and the
  client's create-response after it; the recorder is then not recording.
\<close>

theorem push_to_talk_order:
  "(playing w = Some \<lparr>trackId = Some tid, offset = n\<rparr> \<and> tid \<noteq> [] \<longrightarrow>
      new_calls w (startRecording w)
        = [PlayerInterrupt, ClientCancelResponse tid n, RecorderRecord])
   \<and> (playing w = None \<longrightarrow>
      new_calls w (startRecording w) = [PlayerInterrupt, RecorderRecord])
   \<and> (playing w = Some \<lparr>trackId = None, offset = n\<rparr> \<longrightarrow>
      new_calls w (startRecording w) = [PlayerInterrupt, RecorderRecord])
   \<and> (playing w = Some \<lparr>trackId = Some [], offset = n\<rparr> \<longrightarrow>
      new_calls w (startRecording w) = [PlayerInterrupt, RecorderRecord])
   \<and> isRecording (startRecording w)
   \<and> playing (startRecording w) = None
   \<and> recorder (startRecording w) = (if recorder w = Ended then Ended else Recording)
   \<and> new_calls w (stopRecording w) = [RecorderPause, ClientCreateResponse]
   \<and> \<not> isRecording (stopRecording w)
   \<and> recorder (stopRecording w) \<noteq> Recording"
  by (simp add: startRecording_calls startRecording_state stopRecording_calls
      reported_track_def)

theorem push_to_talk_order_witness:
  "new_calls (talking_world\<lparr>playing := Some \<lparr>trackId = Some ''item_1'', offset = 4800\<rparr>\<rparr>)
     (startRecording
        (talking_world\<lparr>playing := Some \<lparr>trackId = Some ''item_1'', offset = 4800\<rparr>\<rparr>))
     = [PlayerInterrupt, ClientCancelResponse ''item_1'' 4800, RecorderRecord]
   \<and> new_calls talking_world (startRecording talking_world)
     = [PlayerInterrupt, RecorderRecord]
   \<and> new_calls talking_world (stopRecording talking_world)
     = [RecorderPause, ClientCreateResponse]"
  using push_to_talk_order
          [of "talking_world\<lparr>playing := Some \<lparr>trackId = Some ''item_1'', offset = 4800\<rparr>\<rparr>"
              "''item_1''" 4800]
        push_to_talk_order [of talking_world "''item_1''" 4800]
  by (simp add: talking_world_def fresh_world_def)

text \<open>
  Claim C7, as the specification states it: every switch made while the recorder is
  recording pauses first, reconfigures, then resumes. In a push-to-talk turn of a
  connected session, the switch to server-side detection makes no pause call, and the
  switch to manual makes no record call and leaves the recorder paused.
\<close>

theorem mode_switch_counterexample:
  "recorder talking_world = Recording
   \<and> RecorderPause
       \<notin> set (new_calls talking_world (changeTurnEndType ''server_vad'' talking_world))
   \<and> RecorderRecord
       \<notin> set (new_calls talking_world (changeTurnEndType ''none'' talking_world))
   \<and> recorder (changeTurnEndType ''none'' talking_world) = Paused"
  by (simp add: changeTurnEndType_def new_calls_def collab_defs Let_def talking_world_def
      fresh_world_def)

text \<open>
  Claim C7, amended. While the recorder is recording: the switch to manual pauses the
  recorder and then sets the channel's turn detection to none, and makes no further
  call, so the recorder stays paused and push to talk is allowed; the switch to
  server-side detection sets the channel's turn detection first and then, when the
  channel is connected, calls the recorder's record, without a pause before it.
\<close>

theorem mode_switch_amended:
  assumes "recorder w = Recording"
  shows "new_calls w (changeTurnEndType ''none'' w)
           = [RecorderPause, ClientUpdateSession (TurnDetection None)]
         \<and> recorder (changeTurnEndType ''none'' w) = Paused
         \<and> turnDetection (changeTurnEndType ''none'' w) = None
         \<and> canPushToTalk (changeTurnEndType ''none'' w)
         \<and> new_calls w (changeTurnEndType ''server_vad'' w)
           = ClientUpdateSession (TurnDetection (Some ServerVad))
             # (if clientConnected w then [RecorderRecord] else [])
         \<and> turnDetection (changeTurnEndType ''server_vad'' w) = Some ServerVad
         \<and> \<not> canPushToTalk (changeTurnEndType ''server_vad'' w)"
  using assms
  by (simp add: changeTurnEndType_def new_calls_def collab_defs Let_def)

theorem mode_switch_amended_witness:
  "recorder talking_world = Recording
   \<and> new_calls talking_world (changeTurnEndType ''none'' talking_world)
       = [RecorderPause, ClientUpdateSession (TurnDetection None)]
   \<and> new_calls talking_world (changeTurnEndType ''server_vad'' talking_world)
       = [ClientUpdateSession (TurnDetection (Some ServerVad)), RecorderRecord]"
proof -
  have r: "recorder talking_world = Recording"
    by (simp add: talking_world_def fresh_world_def)
  have c: "clientConnected talking_world"
    by (simp add: talking_world_def fresh_world_def)
  show ?thesis
    using r c mode_switch_amended [OF r] by simp
qed

text \<open>
  Claim C8. When the setup runs (the instructions are loaded) on a client that does not
  hold the tool yet, it calls \<^verbatim>\<open>addTool\<close> for \<^verbatim>\<open>initiate_order\<close> exactly when
  discovery mode is off, and the client holds the tool afterwards exactly when discovery
  mode is off.
\<close>

theorem order_tool_iff_not_discovery:
  assumes "instructionsLoaded" and "''initiate_order'' \<notin> set (tools w)"
  shows "(ClientAddTool ''initiate_order''
            \<in> set (new_calls w (coreSetup instructionsLoaded instructions discoveryModeIsOn w)))
           = (\<not> discoveryModeIsOn)
         \<and> (''initiate_order''
            \<in> set (tools (coreSetup instructionsLoaded instructions discoveryModeIsOn w)))
           = (\<not> discoveryModeIsOn)"
  using assms
  by (auto simp add: coreSetup_def new_calls_def collab_defs Let_def)

theorem order_tool_iff_not_discovery_witness:
  "''initiate_order'' \<notin> set (tools (coreSetup True ''menu'' True fresh_world))
   \<and> ClientAddTool ''initiate_order''
        \<notin> set (new_calls fresh_world (coreSetup True ''menu'' True fresh_world))
   \<and> ''initiate_order'' \<in> set (tools (coreSetup True ''menu'' False fresh_world))
   \<and> ClientAddTool ''initiate_order''
        \<in> set (new_calls fresh_world (coreSetup True ''menu'' False fresh_world))"
proof -
  have t: "''initiate_order'' \<notin> set (tools fresh_world)"
    by (simp add: fresh_world_def)
  show ?thesis
    using order_tool_iff_not_discovery [OF TrueI t, of "''menu''" True]
      order_tool_iff_not_discovery [OF TrueI t, of "''menu''" False]
    by simp
qed

section \<open>Properties of the tool \<^verbatim>\<open>initiate_order\<close>\<close>

lemmas js_number_eval = zero_js_number_def js_literal_def round53_def bitlen.simps
  div_half_even_def Let_def

lemma foldl_add_sum_list:
  "foldl (\<lambda>s x. s + f x) (a::'b::monoid_add) xs = a + sum_list (map f xs)"
  by (induction xs arbitrary: a) (simp_all add: add.assoc)

lemma order_total_sum_list:
  "order_total (xs :: ('b::semiring_0) ordered_item list) = (\<Sum>it\<leftarrow>xs. price it * quantity it)"
  by (simp add: order_total_def foldl_add_sum_list)

text \<open>
  The arithmetic of numbers rounds as binary64 does: \<^verbatim>\<open>0.1\<close> is
  \<open>7205759403792794 * 2 ^ -56\<close>, and \<^verbatim>\<open>0.1 + 0.2\<close> is
  \<open>5404319552844596 * 2 ^ -54\<close>, the number above \<^verbatim>\<open>0.3\<close>. A total is the sum the
  handler computes, left to right from 0, in the arithmetic of its numbers.
\<close>

lemma js_number_rounds:
  "js_literal 1 10 = Dbl 7205759403792794 (- 56)
   \<and> js_literal 1 10 + js_literal 2 10 = Dbl 5404319552844596 (- 54)
   \<and> js_literal 3 10 = Dbl 5404319552844595 (- 54)"
  by (simp add: js_number_eval)

lemma shawarma_total_js:
  "order_total [\<lparr>name = ''Beef Shawarma'', quantity = js_literal 2 1,
                 price = js_literal 1299 100\<rparr>] = js_literal 2598 100"
  by (simp add: order_total_def js_number_eval)

lemma initiate_order_result_total:
  "tool_result.totalAmount (fst (initiate_order oe its)) = order_total its"
  by (simp add: initiate_order_def Let_def)

text \<open>
  Claim C5. For every list of ordered items and every arithmetic of numbers, the total
  of the handler is the sum, taken from 0 in the order of the list, of price times
  quantity; the order posted to the order service and the result returned both carry
  that total. In an exact arithmetic the total is the sum of the products. For two
  Beef Shawarma at 12.99 the total is 25.98, in exact arithmetic and in binary64.
\<close>

theorem initiate_order_total:
  fixes its :: "('a::{zero,plus,times}) ordered_item list"
    and xs :: "('b::semiring_0) ordered_item list"
  shows "tool_result.totalAmount (fst (initiate_order oe its)) = order_total its
   \<and> PostOrder (domainUrl oe @ ''/accept-order-details-voice'')
        \<lparr>order_id = randomOrderId oe, restaurant_id = storedRestaurantId oe,
         items_ordered = its, order.totalAmount = order_total its\<rparr>
        \<in> set (snd (initiate_order oe its))
   \<and> order_total its = foldl (\<lambda>sum it. sum + price it * quantity it) 0 its
   \<and> order_total xs = (\<Sum>it\<leftarrow>xs. price it * quantity it)
   \<and> tool_result.totalAmount (fst (initiate_order oe
        [\<lparr>name = ''Beef Shawarma'', quantity = 2, price = 1299 / 100\<rparr>]))
        = (2598 / 100 :: rat)
   \<and> tool_result.totalAmount (fst (initiate_order oe
        [\<lparr>name = ''Beef Shawarma'', quantity = js_literal 2 1,
          price = js_literal 1299 100\<rparr>]))
        = js_literal 2598 100"
proof -
  have a: "tool_result.totalAmount (fst (initiate_order oe its)) = order_total its"
    by (rule initiate_order_result_total)
  have b: "PostOrder (domainUrl oe @ ''/accept-order-details-voice'')
        \<lparr>order_id = randomOrderId oe, restaurant_id = storedRestaurantId oe,
         items_ordered = its, order.totalAmount = order_total its\<rparr>
        \<in> set (snd (initiate_order oe its))"
    by (simp add: initiate_order_def Let_def)
  have c: "order_total its = foldl (\<lambda>sum it. sum + price it * quantity it) 0 its"
    by (simp add: order_total_def)
  have d: "order_total xs = (\<Sum>it\<leftarrow>xs. price it * quantity it)"
    by (rule order_total_sum_list)
  have e: "tool_result.totalAmount (fst (initiate_order oe
        [\<lparr>name = ''Beef Shawarma'', quantity = 2, price = 1299 / 100\<rparr>]))
        = (2598 / 100 :: rat)"
    by (simp add: initiate_order_result_total order_total_def)
  have f: "tool_result.totalAmount (fst (initiate_order oe
        [\<lparr>name = ''Beef Shawarma'', quantity = js_literal 2 1,
          price = js_literal 1299 100\<rparr>]))
        = js_literal 2598 100"
    by (simp only: initiate_order_result_total shawarma_total_js)
  show ?thesis
    by (intro conjI) (rule a, rule b, rule c, rule d, rule e, rule f)
qed

text \<open>
  Claim C10. Whatever becomes of the POST (rejected, answered with a status outside
  200 to 299, answered with a body that is not JSON, or answered well), the handler
  returns the same result: success, the message
  \<^verbatim>\<open>Order initiated successfully\<close>, the order id and the total. A failed POST is
  only logged, after which nothing else is done; only an accepted POST is followed by the
  navigation to the checkout page.
\<close>

theorem initiate_order_reports_success:
  "fst (initiate_order oe its)
     = \<lparr>success = True, message = ''Order initiated successfully'',
        orderId = randomOrderId oe, tool_result.totalAmount = order_total its\<rparr>
   \<and> snd (initiate_order oe its)
     = [ConsoleLog,
        SetOrderDetails \<lparr>order_id = randomOrderId oe, restaurant_id = storedRestaurantId oe,
                         items_ordered = its, order.totalAmount = order_total its\<rparr>,
        PostOrder (domainUrl oe @ ''/accept-order-details-voice'')
                  \<lparr>order_id = randomOrderId oe, restaurant_id = storedRestaurantId oe,
                   items_ordered = its, order.totalAmount = order_total its\<rparr>]
       @ (case response oe of
            NetworkFailure \<Rightarrow> [ConsoleError]
          | HttpResponse status parses \<Rightarrow>
              if response_ok status \<and> parses
              then [ConsoleLog,
                    Navigate (domainUrl oe @ ''/takeaway_delivery/'' @ uniqueAzzId oe
                              @ ''/'' @ randomOrderId oe)]
              else [ConsoleError])"
  by (simp add: initiate_order_def Let_def split: fetch_outcome.splits)

end
